theory Spec2Isabelle
  imports Main "HOL-Library.Word" "HOL-Library.Sublist"
begin

section \<open>EduPath front end (src/frontend/src/App.js): data and operations\<close>

subsection \<open>JavaScript strings\<close>

text \<open>
  A JavaScript string is a sequence of UTF-16 code units, and its \<open>length\<close> counts code
  units. \<open>js\<close> writes an ASCII literal of the source as such a sequence.
  \<open>is_white_space\<close> is the set that \<open>String.prototype.trim\<close> strips: the WhiteSpace and
  LineTerminator code points of ECMAScript, all of them in the basic plane.
\<close>

type_synonym code_unit = "16 word"
type_synonym jsstring = "code_unit list"

definition js :: "string \<Rightarrow> jsstring" where
  "js s = map (\<lambda>c. of_nat (of_char c)) s"

definition is_white_space :: "code_unit \<Rightarrow> bool" where
  "is_white_space c \<longleftrightarrow>
     c \<in> set [0x0009, 0x000A, 0x000B, 0x000C, 0x000D, 0x0020, 0x00A0, 0x1680,
              0x2000, 0x2001, 0x2002, 0x2003, 0x2004, 0x2005, 0x2006, 0x2007,
              0x2008, 0x2009, 0x200A, 0x2028, 0x2029, 0x202F, 0x205F, 0x3000, 0xFEFF]"

text \<open>
  \<open>s.split(sep)\<close> for a one-unit separator: the pieces between the occurrences of the
  separator, so that a string without separator (the empty string too) is one piece.
  \<open>str_join\<close> is \<open>Array.prototype.join\<close>, used to say what the pieces are.
\<close>

fun str_split :: "'a \<Rightarrow> 'a list \<Rightarrow> 'a list list" where
  "str_split sep [] = [[]]"
| "str_split sep (c # cs) =
     (if c = sep then [] # str_split sep cs
      else (case str_split sep cs of [] \<Rightarrow> [[c]] | seg # segs \<Rightarrow> (c # seg) # segs))"

fun str_join :: "'a \<Rightarrow> 'a list list \<Rightarrow> 'a list" where
  "str_join sep [] = []"
| "str_join sep [seg] = seg"
| "str_join sep (seg # segs) = seg @ sep # str_join sep segs"

definition str_trim :: "jsstring \<Rightarrow> jsstring" where
  "str_trim s = rev (dropWhile is_white_space (rev (dropWhile is_white_space s)))"

definition comma :: code_unit where
  "comma = 0x002C"

text \<open>
  The expression \<open>raw.split(',').map(s => s.trim()).filter(s => s)\<close> of \<open>handleSubmit\<close>
  (lines 443 to 447): the only falsy string is the empty one.
\<close>

definition normalize_csv :: "jsstring \<Rightarrow> jsstring list" where
  "normalize_csv raw = filter (\<lambda>s. s \<noteq> []) (map str_trim (str_split comma raw))"

subsection \<open>Remote calls\<close>

text \<open>
  A rejected axios promise carries an error whose \<open>response.data.detail\<close> may be absent.
  A settled call is \<open>Inl\<close> of that error or \<open>Inr\<close> of the response data.
\<close>

datatype axios_error = AxiosError (detail: "jsstring option")

subsection \<open>CareerRecommendations (lines 425 to 578)\<close>

record form_data =
  interests :: jsstring
  academic_level :: jsstring
  subjects :: jsstring
  strengths :: jsstring
  career_goals :: jsstring

record recommendation_request =
  req_interests :: "jsstring list"
  req_academic_level :: jsstring
  req_subjects :: "jsstring list"
  req_strengths :: "jsstring list"
  req_career_goals :: "jsstring list"

record recommendation =
  career_title :: jsstring
  match_percentage :: int
  description :: jsstring
  education_path :: jsstring
  local_opportunities :: jsstring
  skills_needed :: "jsstring list"
  salary_range :: jsstring
  growth_prospects :: jsstring

text \<open>
  The component's three \<open>useState\<close> cells, and beside them what the component does to
  the world outside React: the requests it has posted (in order), how many of them are
  not settled yet, and the errors it has written with \<open>console.error\<close>.
\<close>

record career =
  rec_loading :: bool
  recommendations :: "recommendation list"
  formData :: form_data
  posted :: "recommendation_request list"
  pending :: nat
  console :: "axios_error list"

definition initial_formData :: form_data where
  "initial_formData =
     \<lparr>interests = [], academic_level = js ''12th'', subjects = [], strengths = [],
      career_goals = []\<rparr>"

definition initial_career :: career where
  "initial_career =
     \<lparr>rec_loading = False, recommendations = [], formData = initial_formData,
      posted = [], pending = 0, console = []\<rparr>"

definition requestData :: "form_data \<Rightarrow> recommendation_request" where
  "requestData f =
     \<lparr>req_interests = normalize_csv (interests f),
      req_academic_level = academic_level f,
      req_subjects = normalize_csv (subjects f),
      req_strengths = normalize_csv (strengths f),
      req_career_goals = normalize_csv (career_goals f)\<rparr>"

text \<open>
  \<open>handleSubmit\<close> up to its \<open>await\<close>: \<open>setLoading(true)\<close>, build the request, post it.
  The handler itself does not look at \<open>loading\<close>.
\<close>

definition handleSubmit :: "career \<Rightarrow> career" where
  "handleSubmit c =
     c\<lparr>rec_loading := True,
       posted := posted c @ [requestData (formData c)],
       pending := Suc (pending c)\<rparr>"

text \<open>
  \<open>handleSubmit\<close> after its \<open>await\<close>: on success \<open>setRecommendations\<close> with the response's
  list; on failure the \<open>catch\<close> block, which is \<open>console.error\<close> alone; \<open>finally\<close>
  \<open>setLoading(false)\<close> on both paths.
\<close>

definition handleSubmit_settled :: "axios_error + recommendation list \<Rightarrow> career \<Rightarrow> career" where
  "handleSubmit_settled r c =
     (case r of
        Inr recs \<Rightarrow> c\<lparr>recommendations := recs, rec_loading := False, pending := pending c - 1\<rparr>
      | Inl err \<Rightarrow> c\<lparr>console := console c @ [err], rec_loading := False,
                     pending := pending c - 1\<rparr>)"

text \<open>
  What the user and the network can do to a mounted form. The four \<open>onChange\<close> handlers
  are the only callers of \<open>setFormData\<close>. The form's only submit button is rendered with
  \<open>disabled={loading}\<close> (line 527): a disabled submit button cannot be activated and, being
  the form's default button, blocks implicit submission from the text inputs, so a submit
  attempt reaches \<open>handleSubmit\<close> only while \<open>loading\<close> is false. A response arrives only
  for a request that is pending.
\<close>

datatype career_event =
    ChangeInterests jsstring
  | ChangeAcademicLevel jsstring
  | ChangeSubjects jsstring
  | ChangeStrengths jsstring
  | SubmitAttempt
  | Settled "axios_error + recommendation list"

fun career_step :: "career_event \<Rightarrow> career \<Rightarrow> career" where
  "career_step (ChangeInterests v) c = c\<lparr>formData := (formData c)\<lparr>interests := v\<rparr>\<rparr>"
| "career_step (ChangeAcademicLevel v) c = c\<lparr>formData := (formData c)\<lparr>academic_level := v\<rparr>\<rparr>"
| "career_step (ChangeSubjects v) c = c\<lparr>formData := (formData c)\<lparr>subjects := v\<rparr>\<rparr>"
| "career_step (ChangeStrengths v) c = c\<lparr>formData := (formData c)\<lparr>strengths := v\<rparr>\<rparr>"
| "career_step SubmitAttempt c = (if rec_loading c then c else handleSubmit c)"
| "career_step (Settled r) c = (if pending c = 0 then c else handleSubmit_settled r c)"

fun career_run :: "career_event list \<Rightarrow> career \<Rightarrow> career" where
  "career_run [] c = c"
| "career_run (e # es) c = career_run es (career_step e c)"

text \<open>
  What the component's JSX shows of its state: the four inputs (there is none for
  \<open>career_goals\<close>), the submit button, disabled and showing the spinner while \<open>loading\<close>,
  and one card per recommendation. Nothing else in the markup depends on the state.
\<close>

record career_view =
  input_interests :: jsstring
  input_academic_level :: jsstring
  input_subjects :: jsstring
  input_strengths :: jsstring
  button_disabled :: bool
  cards :: "recommendation list"

definition career_render :: "career \<Rightarrow> career_view" where
  "career_render c =
     \<lparr>input_interests = interests (formData c),
      input_academic_level = academic_level (formData c),
      input_subjects = subjects (formData c),
      input_strengths = strengths (formData c),
      button_disabled = rec_loading c,
      cards = recommendations c\<rparr>"

definition example_results :: "recommendation list" where
  "example_results =
     map (\<lambda>(t, m).
            \<lparr>career_title = js t, match_percentage = m, description = js ''Builds things'',
             education_path = js ''B.Tech'', local_opportunities = js ''Srinagar'',
             skills_needed = [js ''Math''], salary_range = js ''3-6 LPA'',
             growth_prospects = js ''High''\<rparr>)
         [(''Software Engineer'', 92), (''Data Analyst'', 85), (''Teacher'', 70)]"

definition career_with_results :: career where
  "career_with_results =
     career_run [ChangeInterests (js ''Technology''), SubmitAttempt,
                 Settled (Inr example_results)] initial_career"

subsection \<open>Dashboard data loader (lines 580 to 605)\<close>

text \<open>
  The three lists the Dashboard keeps, with the number of \<open>console.error\<close> calls of the
  loader beside them. The elements of the lists are whatever the remote service sent;
  the loader does not look inside them.
\<close>

record ('sc, 'op) dashboard =
  activeTab :: jsstring
  stats :: "(jsstring \<times> int) list"
  scholarships :: "'sc list"
  opportunities :: "'op list"
  dash_logged :: nat

definition initial_dashboard :: "('sc, 'op) dashboard" where
  "initial_dashboard =
     \<lparr>activeTab = js ''overview'', stats = [], scholarships = [], opportunities = [],
      dash_logged = 0\<rparr>"

text \<open>
  \<open>Promise.all\<close> of three promises: fulfilled with the three values when all three are
  fulfilled, rejected as soon as one of them is rejected.
\<close>

definition promise_all3 :: "'e + 'a \<Rightarrow> 'e + 'b \<Rightarrow> 'e + 'c \<Rightarrow> ('a \<times> 'b \<times> 'c) option" where
  "promise_all3 ra rb rc =
     (case (ra, rb, rc) of (Inr a, Inr b, Inr c) \<Rightarrow> Some (a, b, c) | _ \<Rightarrow> None)"

text \<open>
  \<open>fetchDashboardData\<close> once its three requests are settled: the three setters run after
  the \<open>await Promise.all\<close>, inside one \<open>try\<close>; the \<open>catch\<close> block is \<open>console.error\<close> alone.
  The three requests were sent together when the Dashboard mounted.
\<close>

definition fetchDashboardData ::
  "axios_error + (jsstring \<times> int) list \<Rightarrow> axios_error + 'sc list \<Rightarrow> axios_error + 'op list
     \<Rightarrow> ('sc, 'op) dashboard \<Rightarrow> ('sc, 'op) dashboard" where
  "fetchDashboardData statsRes scholarshipsRes opportunitiesRes d =
     (case promise_all3 statsRes scholarshipsRes opportunitiesRes of
        Some (st, sc, op) \<Rightarrow> d\<lparr>stats := st, scholarships := sc, opportunities := op\<rparr>
      | None \<Rightarrow> d\<lparr>dash_logged := Suc (dash_logged d)\<rparr>)"

subsection \<open>App: session and language (lines 905 to 945)\<close>

record user_identity =
  uid :: jsstring
  full_name :: jsstring
  email :: jsstring
  role :: jsstring
  preferred_language :: "jsstring option"

record auth_response =
  access_token :: jsstring
  resp_user :: user_identity

text \<open>
  The four \<open>useState\<close> cells of \<open>App\<close>; the two places the credential lives in, the
  \<open>token\<close> key of \<open>localStorage\<close> and \<open>axios.defaults.headers.common['Authorization']\<close>;
  and the bookkeeping of the requests: whether the startup effect has run, whether its
  \<open>GET /auth/me\<close> is unanswered, and how many posts of the AuthForm are unanswered.
\<close>

record app =
  user :: "user_identity option"
  loading :: bool
  authMode :: "bool option"
  currentLanguage :: jsstring
  localStorage_token :: "jsstring option"
  axios_Authorization :: "jsstring option"
  mounted :: bool
  me_pending :: bool
  auth_pending :: nat

definition initial_app :: "jsstring option \<Rightarrow> app" where
  "initial_app stored =
     \<lparr>user = None, loading = True, authMode = None, currentLanguage = js ''en'',
      localStorage_token = stored, axios_Authorization = None,
      mounted = False, me_pending = False, auth_pending = 0\<rparr>"

definition Bearer :: "jsstring \<Rightarrow> jsstring" where
  "Bearer token = js ''Bearer '' @ token"

text \<open>\<open>v || d\<close> on a string that may be absent: absent and the empty string are falsy.\<close>

definition or_default :: "jsstring option \<Rightarrow> jsstring \<Rightarrow> jsstring" where
  "or_default v d = (case v of None \<Rightarrow> d | Some s \<Rightarrow> if s = [] then d else s)"

text \<open>
  The startup effect (lines 913 to 932) up to the request: \<open>if (token)\<close> is false for an
  absent and for an empty token.
\<close>

definition startup_effect :: "app \<Rightarrow> app" where
  "startup_effect a =
     (case localStorage_token a of
        None \<Rightarrow> a\<lparr>loading := False, mounted := True\<rparr>
      | Some token \<Rightarrow>
          if token = [] then a\<lparr>loading := False, mounted := True\<rparr>
          else a\<lparr>axios_Authorization := Some (Bearer token), mounted := True,
                 me_pending := True\<rparr>)"

text \<open>The \<open>then\<close>, \<open>catch\<close> and \<open>finally\<close> callbacks of the \<open>GET /auth/me\<close> request.\<close>

definition me_settled :: "axios_error + user_identity \<Rightarrow> app \<Rightarrow> app" where
  "me_settled r a =
     (case r of
        Inr data \<Rightarrow>
          a\<lparr>user := Some data,
            currentLanguage := or_default (preferred_language data) (js ''en''),
            loading := False, me_pending := False\<rparr>
      | Inl err \<Rightarrow>
          a\<lparr>localStorage_token := None, axios_Authorization := None,
            loading := False, me_pending := False\<rparr>)"

definition handleAuthSuccess :: "user_identity \<Rightarrow> app \<Rightarrow> app" where
  "handleAuthSuccess userData a =
     a\<lparr>user := Some userData,
       currentLanguage := or_default (preferred_language userData) (js ''en''),
       authMode := None\<rparr>"

definition handleLogout :: "app \<Rightarrow> app" where
  "handleLogout a =
     a\<lparr>localStorage_token := None, axios_Authorization := None, user := None,
       authMode := None\<rparr>"

text \<open>
  The success path of \<open>AuthForm.onSubmit\<close> (lines 273 to 276), as far as it touches the
  session: store the token, set the header, call \<open>onSuccess\<close>, which is \<open>handleAuthSuccess\<close>.
\<close>

definition onSubmit_success :: "auth_response \<Rightarrow> app \<Rightarrow> app" where
  "onSubmit_success response a =
     handleAuthSuccess (resp_user response)
       (a\<lparr>localStorage_token := Some (access_token response),
          axios_Authorization := Some (Bearer (access_token response))\<rparr>)"

text \<open>
  What can happen to the application, each event with the condition under which the
  markup offers it: while \<open>loading\<close> only the spinner is rendered; the AuthForm and the
  buttons that set \<open>authMode\<close> are rendered only without a user; the logout button only
  with one; an answer arrives only for a request that was sent. The failure path of
  \<open>AuthForm.onSubmit\<close> writes the form's own error cell and nothing of the session.
\<close>

datatype app_event =
    Mount
  | MeSettled "axios_error + user_identity"
  | SetLanguage jsstring
  | SetAuthMode "bool option"
  | AuthSubmit
  | AuthSettled "axios_error + auth_response"
  | Logout

fun app_step :: "app_event \<Rightarrow> app \<Rightarrow> app" where
  "app_step Mount a = (if mounted a then a else startup_effect a)"
| "app_step (MeSettled r) a = (if me_pending a then me_settled r a else a)"
| "app_step (SetLanguage l) a = (if loading a then a else a\<lparr>currentLanguage := l\<rparr>)"
| "app_step (SetAuthMode m) a =
     (if loading a \<or> user a \<noteq> None then a else a\<lparr>authMode := m\<rparr>)"
| "app_step AuthSubmit a =
     (if loading a \<or> user a \<noteq> None \<or> authMode a = None then a
      else a\<lparr>auth_pending := Suc (auth_pending a)\<rparr>)"
| "app_step (AuthSettled r) a =
     (if auth_pending a = 0 then a
      else (case r of Inr response \<Rightarrow> onSubmit_success response a | Inl err \<Rightarrow> a)
             \<lparr>auth_pending := auth_pending a - 1\<rparr>)"
| "app_step Logout a = (if loading a \<or> user a = None then a else handleLogout a)"

fun app_run :: "app_event list \<Rightarrow> app \<Rightarrow> app" where
  "app_run [] a = a"
| "app_run (e # es) a = app_run es (app_step e a)"

definition example_user :: user_identity where
  "example_user =
     \<lparr>uid = js ''u1'', full_name = js ''Asha Kumar'', email = js ''asha@example.org'',
      role = js ''student'', preferred_language = Some (js ''hi'')\<rparr>"

subsection \<open>AuthForm: schemas and submission (lines 150 to 163 and 255 to 282)\<close>

text \<open>
  The values of the form's registered inputs. The login form has the first two inputs
  only, and \<open>loginSchema\<close> reads nothing else. \<open>phone\<close> and \<open>preferred_language\<close> are
  optional in \<open>registerSchema\<close>.
\<close>

record auth_data =
  data_email :: jsstring
  data_password :: jsstring
  data_full_name :: jsstring
  data_role :: jsstring
  data_phone :: "jsstring option"
  data_preferred_language :: "jsstring option"

datatype field = Email | Password | FullName | Role | PreferredLanguage

text \<open>
  The two parts of the zod library that the schemas leave to it: the test behind
  \<open>z.string().email\<close>, and the default message of \<open>z.enum\<close>, which the schemas do not
  override. Both are parameters of the model.
\<close>

record zod =
  is_email :: "jsstring \<Rightarrow> bool"
  invalid_enum_value :: "jsstring list \<Rightarrow> jsstring \<Rightarrow> jsstring"

definition roles :: "jsstring list" where
  "roles = [js ''student'', js ''parent'', js ''counselor'', js ''admin'']"

definition language_codes :: "jsstring list" where
  "language_codes = [js ''en'', js ''hi'', js ''ks'']"

definition string_email :: "zod \<Rightarrow> field \<Rightarrow> jsstring \<Rightarrow> jsstring \<Rightarrow> (field \<times> jsstring) list" where
  "string_email z k message v = (if is_email z v then [] else [(k, message)])"

definition string_min :: "nat \<Rightarrow> field \<Rightarrow> jsstring \<Rightarrow> jsstring \<Rightarrow> (field \<times> jsstring) list" where
  "string_min n k message v = (if n \<le> length v then [] else [(k, message)])"

definition enum_of :: "zod \<Rightarrow> jsstring list \<Rightarrow> field \<Rightarrow> jsstring \<Rightarrow> (field \<times> jsstring) list" where
  "enum_of z options k v =
     (if v \<in> set options then [] else [(k, invalid_enum_value z options v)])"

text \<open>The issues each schema reports, one per violated field, in the order of its keys.\<close>

definition loginSchema :: "zod \<Rightarrow> auth_data \<Rightarrow> (field \<times> jsstring) list" where
  "loginSchema z d =
     string_email z Email (js ''Invalid email address'') (data_email d)
     @ string_min 6 Password (js ''Password must be at least 6 characters'') (data_password d)"

definition registerSchema :: "zod \<Rightarrow> auth_data \<Rightarrow> (field \<times> jsstring) list" where
  "registerSchema z d =
     string_email z Email (js ''Invalid email address'') (data_email d)
     @ string_min 6 Password (js ''Password must be at least 6 characters'') (data_password d)
     @ string_min 2 FullName (js ''Full name must be at least 2 characters'') (data_full_name d)
     @ enum_of z roles Role (data_role d)
     @ (case data_preferred_language d of
          None \<Rightarrow> []
        | Some l \<Rightarrow> enum_of z language_codes PreferredLanguage l)"

text \<open>
  The form's own state: its two \<open>useState\<close> cells, the \<open>errors\<close> of \<open>formState\<close>, and the
  posts it has sent, each with its endpoint.
\<close>

record auth_form =
  form_loading :: bool
  form_error :: jsstring
  errors :: "(field \<times> jsstring) list"
  auth_posted :: "(jsstring \<times> auth_data) list"

text \<open>\<open>onSubmit\<close> up to its \<open>await\<close>.\<close>

definition onSubmit :: "bool \<Rightarrow> auth_data \<Rightarrow> auth_form \<Rightarrow> auth_form" where
  "onSubmit isLogin d f =
     f\<lparr>form_loading := True, form_error := [],
       auth_posted := auth_posted f
         @ [(if isLogin then js ''/auth/login'' else js ''/auth/register'', d)]\<rparr>"

text \<open>
  \<open>handleSubmit(onSubmit)\<close> of the form library with \<open>zodResolver(schema)\<close>: the schema
  runs first; with issues they become \<open>errors\<close> and \<open>onSubmit\<close> is not called.
\<close>

definition form_handleSubmit :: "zod \<Rightarrow> bool \<Rightarrow> auth_data \<Rightarrow> auth_form \<Rightarrow> auth_form" where
  "form_handleSubmit z isLogin d f =
     (let issues = (if isLogin then loginSchema z d else registerSchema z d)
      in if issues = [] then onSubmit isLogin d (f\<lparr>errors := []\<rparr>)
         else f\<lparr>errors := issues\<rparr>)"


datatype language_option = En | Hi | Ks


fun language_value :: "language_option \<Rightarrow> jsstring" where
  "language_value En = js ''en''"
| "language_value Hi = js ''hi''"
| "language_value Ks = js ''ks''"



text \<open>
  The email field is \<open><input type="email">\<close> (line 302) in a form without \<open>noValidate\<close>
  (line 296), so the browser checks it before it fires the submit event: a value that is
  not empty and not a valid e-mail address of the HTML standard is a type mismatch, the
  browser reports it at the field, and no submit event is fired. No other input of the
  form has a constraint (none is \<open>required\<close>). The grammar is that of the standard: one or
  more \<open>atext\<close> characters or dots, \<open>@\<close>, and labels of letters, digits and inner hyphens,
  at most 63 long, separated by dots.
\<close>

definition is_alnum :: "code_unit \<Rightarrow> bool" where
  "is_alnum c \<longleftrightarrow>
     (0x0030 \<le> c \<and> c \<le> 0x0039) \<or> (0x0041 \<le> c \<and> c \<le> 0x005A) \<or> (0x0061 \<le> c \<and> c \<le> 0x007A)"

definition is_atext :: "code_unit \<Rightarrow> bool" where
  "is_atext c \<longleftrightarrow>
     is_alnum c
     \<or> c \<in> set [0x002E, 0x0021, 0x0023, 0x0024, 0x0025, 0x0026, 0x0027, 0x002A, 0x002B, 0x002F,
                 0x003D, 0x003F, 0x005E, 0x005F, 0x0060, 0x007B, 0x007C, 0x007D, 0x007E, 0x002D]"

definition is_label :: "jsstring \<Rightarrow> bool" where
  "is_label l \<longleftrightarrow>
     l \<noteq> [] \<and> length l \<le> 63 \<and> is_alnum (hd l) \<and> is_alnum (last l)
     \<and> list_all (\<lambda>c. is_alnum c \<or> c = 0x002D) l"

definition html_email :: "jsstring \<Rightarrow> bool" where
  "html_email v \<longleftrightarrow>
     (case str_split 0x0040 v of
        [local_part, domain] \<Rightarrow>
          local_part \<noteq> [] \<and> list_all is_atext local_part
          \<and> list_all is_label (str_split 0x002E domain)
      | _ \<Rightarrow> False)"







text \<open>
  A request whose four lists hold no empty segment and no segment of white space only.
\<close>

definition request_clean :: "recommendation_request \<Rightarrow> bool" where
  "request_clean req \<longleftrightarrow>
     (\<forall>seg\<in>set (req_interests req @ req_subjects req @ req_strengths req
                  @ req_career_goals req).
        seg \<noteq> [] \<and> (\<exists>c\<in>set seg. \<not> is_white_space c))"

subsection \<open>Invariants of the two event systems\<close>

text \<open>
  Of the recommendation form: a request is pending exactly while \<open>loading\<close> is set, and
  then only one; \<open>career_goals\<close> is still the empty string, and so is the \<open>career_goals\<close> list
  of every request posted so far.
\<close>

definition career_inv :: "career \<Rightarrow> bool" where
  "career_inv c \<longleftrightarrow>
     pending c = (if rec_loading c then 1 else 0)
     \<and> career_goals (formData c) = []
     \<and> (\<forall>req\<in>set (posted c). req_career_goals req = [])"

text \<open>
  Of the application, by phase: before the startup effect; while the startup
  verification is unanswered; afterwards.
\<close>

definition session_inv :: "app \<Rightarrow> bool" where
  "session_inv a \<longleftrightarrow>
     (if \<not> mounted a then
        loading a \<and> \<not> me_pending a \<and> auth_pending a = 0 \<and> user a = None
        \<and> axios_Authorization a = None
      else if loading a then
        me_pending a \<and> auth_pending a = 0 \<and> user a = None
        \<and> localStorage_token a \<noteq> None
        \<and> axios_Authorization a = map_option Bearer (localStorage_token a)
      else
        \<not> me_pending a
        \<and> (case user a of
              None \<Rightarrow> axios_Authorization a = None
            | Some u \<Rightarrow> localStorage_token a \<noteq> None
                \<and> axios_Authorization a = map_option Bearer (localStorage_token a)))"

section \<open>Properties\<close>

subsection \<open>Normalization of comma-separated fields\<close>

lemma str_split_not_Nil: "str_split sep s \<noteq> []"
  by (induction s) (auto split: list.splits)

lemma str_split_no_sep: "seg \<in> set (str_split sep s) \<Longrightarrow> sep \<notin> set seg"
  by (induction s arbitrary: seg) (auto split: if_splits list.splits)

lemma str_join_Cons: "segs \<noteq> [] \<Longrightarrow> str_join sep (seg # segs) = seg @ sep # str_join sep segs"
  by (cases segs) simp_all

lemma str_join_split: "str_join sep (str_split sep s) = s"
proof (induction s)
  case Nil
  show ?case by simp
next
  case (Cons c cs)
  show ?case
  proof (cases "c = sep")
    case True
    with Cons show ?thesis by (simp add: str_join_Cons str_split_not_Nil)
  next
    case False
    obtain seg segs where sp: "str_split sep cs = seg # segs"
      using str_split_not_Nil [of sep cs] by (cases "str_split sep cs") auto
    from Cons sp False show ?thesis by (cases segs) auto
  qed
qed

lemma dropWhile_all_iff: "(\<forall>x\<in>set (dropWhile P xs). P x) \<longleftrightarrow> dropWhile P xs = []"
proof
  assume a: "\<forall>x\<in>set (dropWhile P xs). P x"
  show "dropWhile P xs = []"
  proof (rule ccontr)
    assume ne: "dropWhile P xs \<noteq> []"
    then have "\<not> P (hd (dropWhile P xs))" by (rule hd_dropWhile)
    moreover have "hd (dropWhile P xs) \<in> set (dropWhile P xs)" using ne by simp
    ultimately show False using a by blast
  qed
next
  assume "dropWhile P xs = []"
  then show "\<forall>x\<in>set (dropWhile P xs). P x" by (simp del: dropWhile_eq_Nil_conv)
qed

lemma str_trim_Nil_iff: "str_trim s = [] \<longleftrightarrow> (\<forall>c\<in>set s. is_white_space c)"
proof -
  have "str_trim s = [] \<longleftrightarrow> (\<forall>x\<in>set (dropWhile is_white_space s). is_white_space x)"
    by (simp add: str_trim_def)
  also have "\<dots> \<longleftrightarrow> dropWhile is_white_space s = []" by (rule dropWhile_all_iff)
  finally show ?thesis by (simp add: dropWhile_eq_Nil_conv)
qed

lemma str_trim_hd: "str_trim s \<noteq> [] \<Longrightarrow> \<not> is_white_space (hd (str_trim s))"
proof -
  assume ne: "str_trim s \<noteq> []"
  let ?d = "dropWhile is_white_space s"
  have d: "?d \<noteq> []"
  proof
    assume "?d = []"
    then have "str_trim s = []" by (simp add: str_trim_def del: dropWhile_eq_Nil_conv)
    with ne show False by simp
  qed
  then have h: "\<not> is_white_space (hd ?d)" by (rule hd_dropWhile)
  obtain x xs where dx: "?d = x # xs" using d by (cases ?d) auto
  have "dropWhile is_white_space (rev xs @ [x]) = dropWhile is_white_space (rev xs) @ [x]"
    using h dx by (induction "rev xs") (auto simp: dropWhile_append)
  then show ?thesis using dx h by (simp add: str_trim_def)
qed

lemma str_trim_last: "str_trim s \<noteq> [] \<Longrightarrow> \<not> is_white_space (last (str_trim s))"
proof -
  assume ne: "str_trim s \<noteq> []"
  let ?r = "dropWhile is_white_space (rev (dropWhile is_white_space s))"
  have "?r \<noteq> []" using ne by (simp add: str_trim_def)
  then have "\<not> is_white_space (hd ?r)" by (rule hd_dropWhile)
  then show ?thesis using \<open>?r \<noteq> []\<close> by (simp add: str_trim_def last_rev)
qed

lemma set_str_trim: "set (str_trim s) \<subseteq> set s"
  by (auto simp: str_trim_def dest!: set_dropWhileD)

lemma normalize_csv_alt:
  "normalize_csv raw =
     map str_trim (filter (\<lambda>seg. \<exists>c\<in>set seg. \<not> is_white_space c) (str_split comma raw))"
  by (auto simp: normalize_csv_def filter_map o_def str_trim_Nil_iff
      intro!: arg_cong [where f = "map str_trim"] filter_cong)

lemma normalize_csv_Nil: "normalize_csv [] = []"
  by (simp add: normalize_csv_def str_trim_def)

lemma normalize_csv_clean:
  assumes "seg \<in> set (normalize_csv raw)"
  shows "seg \<noteq> [] \<and> (\<exists>c\<in>set seg. \<not> is_white_space c)"
proof -
  from assms obtain s0 where seg: "seg = str_trim s0" and ne: "seg \<noteq> []"
    by (auto simp: normalize_csv_def)
  from ne seg have "\<not> is_white_space (hd seg)" using str_trim_hd by simp
  moreover from ne have "hd seg \<in> set seg" by simp
  ultimately show ?thesis using ne by blast
qed

lemma request_clean_requestData: "request_clean (requestData f)"
  by (auto simp: request_clean_def requestData_def dest: normalize_csv_clean)

lemma posted_clean_step:
  "\<forall>req\<in>set (posted c). request_clean req \<Longrightarrow>
     \<forall>req\<in>set (posted (career_step e c)). request_clean req"
  by (cases e)
     (auto simp: handleSubmit_def handleSubmit_settled_def request_clean_requestData
        split: sum.splits)

lemma posted_clean_run:
  "\<forall>req\<in>set (posted c). request_clean req \<Longrightarrow>
     \<forall>req\<in>set (posted (career_run es c)). request_clean req"
proof (induction es arbitrary: c)
  case Nil
  then show ?case by simp
next
  case (Cons e es)
  from Cons.prems have "\<forall>req\<in>set (posted (career_step e c)). request_clean req"
    by (rule posted_clean_step)
  then show ?case using Cons.IH by simp
qed

lemma posted_clean_reachable:
  "\<forall>req\<in>set (posted (career_run es initial_career)). request_clean req"
  by (rule posted_clean_run) (simp add: initial_career_def)

text \<open>
  C4. For every raw string: the pieces of the split, joined by commas, are the raw string
  again, and no piece contains a comma (the split is at the commas); the normalized list
  is, in order, the trimmed pieces that are not made of white space only; so each of its
  elements is non-empty, has a character that is not white space, no comma, and neither
  starts nor ends with white space. The input \<open>"Math,  , Physics ,"\<close> gives
  \<open>["Math", "Physics"]\<close>. A submission posts the request whose four lists are the
  normalized fields of the form, and whatever the user does with the form, every request
  it has posted holds, in each of its four lists, no empty segment and no segment of white
  space only.
\<close>

theorem normalize_csv_contract:
  "(\<forall>seg\<in>set (normalize_csv raw).
       seg \<noteq> [] \<and> (\<exists>c\<in>set seg. \<not> is_white_space c) \<and> comma \<notin> set seg
       \<and> \<not> is_white_space (hd seg) \<and> \<not> is_white_space (last seg))
   \<and> normalize_csv raw =
       map str_trim (filter (\<lambda>seg. \<exists>c\<in>set seg. \<not> is_white_space c) (str_split comma raw))
   \<and> str_join comma (str_split comma raw) = raw
   \<and> (\<forall>seg\<in>set (str_split comma raw). comma \<notin> set seg)
   \<and> normalize_csv (js ''Math,  , Physics ,'') = [js ''Math'', js ''Physics'']
   \<and> (\<not> rec_loading c \<longrightarrow>
        posted (career_step SubmitAttempt c) =
          posted c @
            [\<lparr>req_interests = normalize_csv (interests (formData c)),
              req_academic_level = academic_level (formData c),
              req_subjects = normalize_csv (subjects (formData c)),
              req_strengths = normalize_csv (strengths (formData c)),
              req_career_goals = normalize_csv (career_goals (formData c))\<rparr>])
   \<and> (\<forall>req\<in>set (posted (career_run es initial_career)).
         \<forall>seg\<in>set (req_interests req @ req_subjects req @ req_strengths req
                       @ req_career_goals req).
           seg \<noteq> [] \<and> (\<exists>c\<in>set seg. \<not> is_white_space c))"
proof (intro conjI ballI impI)
  fix seg assume "seg \<in> set (normalize_csv raw)"
  then obtain s0 where s0: "s0 \<in> set (str_split comma raw)"
    and seg: "seg = str_trim s0" and ne: "seg \<noteq> []"
    by (auto simp: normalize_csv_def)
  show "seg \<noteq> []" by (rule ne)
  show "\<exists>c\<in>set seg. \<not> is_white_space c"
    using ne seg str_trim_hd [of s0] by (cases seg) auto
  show "comma \<notin> set seg"
    using str_split_no_sep [OF s0] set_str_trim [of s0] seg by auto
  show "\<not> is_white_space (hd seg)" using ne seg str_trim_hd by simp
  show "\<not> is_white_space (last seg)" using ne seg str_trim_last by simp
next
  show "normalize_csv raw =
       map str_trim (filter (\<lambda>seg. \<exists>c\<in>set seg. \<not> is_white_space c) (str_split comma raw))"
    by (rule normalize_csv_alt)
  show "str_join comma (str_split comma raw) = raw" by (rule str_join_split)
  show "normalize_csv (js ''Math,  , Physics ,'') = [js ''Math'', js ''Physics'']"
    by (simp add: normalize_csv_def js_def comma_def str_trim_def is_white_space_def)
next
  fix seg assume "seg \<in> set (str_split comma raw)"
  then show "comma \<notin> set seg" by (rule str_split_no_sep)
next
  assume "\<not> rec_loading c"
  then show "posted (career_step SubmitAttempt c) =
          posted c @
            [\<lparr>req_interests = normalize_csv (interests (formData c)),
              req_academic_level = academic_level (formData c),
              req_subjects = normalize_csv (subjects (formData c)),
              req_strengths = normalize_csv (strengths (formData c)),
              req_career_goals = normalize_csv (career_goals (formData c))\<rparr>]"
    by (simp add: handleSubmit_def requestData_def)
next
  fix req seg
  assume r: "req \<in> set (posted (career_run es initial_career))"
    and s: "seg \<in> set (req_interests req @ req_subjects req @ req_strengths req
                         @ req_career_goals req)"
  from r have "request_clean req" using posted_clean_reachable [of es] by blast
  with s have c: "seg \<noteq> [] \<and> (\<exists>c\<in>set seg. \<not> is_white_space c)"
    unfolding request_clean_def by blast
  show "seg \<noteq> []" using c by simp
  show "\<exists>c\<in>set seg. \<not> is_white_space c" using c by simp
qed

theorem normalize_csv_contract_witness:
  "js ''Physics'' \<in> set (normalize_csv (js ''Math,  , Physics ,''))
   \<and> js ''Physics'' \<noteq> [] \<and> comma \<notin> set (js ''Physics'')
   \<and> \<not> is_white_space (hd (js ''Physics'')) \<and> \<not> is_white_space (last (js ''Physics''))
   \<and> js '' Physics '' \<in> set (str_split comma (js ''Math,  , Physics ,''))
   \<and> comma \<notin> set (js '' Physics '')
   \<and> \<not> rec_loading (career_step (ChangeSubjects (js ''Math,  , Physics ,'')) initial_career)
   \<and> posted (career_run [ChangeSubjects (js ''Math,  , Physics ,''), SubmitAttempt] initial_career)
       = [\<lparr>req_interests = [], req_academic_level = js ''12th'',
           req_subjects = [js ''Math'', js ''Physics''], req_strengths = [],
           req_career_goals = []\<rparr>]
   \<and> js ''Math'' \<noteq> [] \<and> (\<exists>c\<in>set (js ''Math''). \<not> is_white_space c)"
proof -
  let ?raw = "js ''Math,  , Physics ,''"
  let ?c = "career_step (ChangeSubjects ?raw) initial_career"
  let ?es = "[ChangeSubjects ?raw, SubmitAttempt]"
  have m: "js ''Physics'' \<in> set (normalize_csv ?raw)"
    by (simp add: normalize_csv_def js_def comma_def str_trim_def is_white_space_def)
  have p: "js '' Physics '' \<in> set (str_split comma ?raw)"
    by (simp add: js_def comma_def)
  have l: "\<not> rec_loading ?c" and i: "posted ?c = []"
    and f: "formData ?c = initial_formData\<lparr>subjects := ?raw\<rparr>"
    by (simp_all add: initial_career_def)
  have r: "career_run ?es initial_career = career_step SubmitAttempt ?c" by simp
  note T = normalize_csv_contract [of ?raw ?c ?es]
  note T1 = T [THEN conjunct1]
  note T4 = T [THEN conjunct2, THEN conjunct2, THEN conjunct2, THEN conjunct1]
  note T5 = T [THEN conjunct2, THEN conjunct2, THEN conjunct2, THEN conjunct2, THEN conjunct1]
  note T6 = T [THEN conjunct2, THEN conjunct2, THEN conjunct2, THEN conjunct2, THEN conjunct2,
      THEN conjunct1]
  note T7 = T [THEN conjunct2, THEN conjunct2, THEN conjunct2, THEN conjunct2, THEN conjunct2,
      THEN conjunct2]
  have a: "js ''Physics'' \<noteq> [] \<and> comma \<notin> set (js ''Physics'')
      \<and> \<not> is_white_space (hd (js ''Physics'')) \<and> \<not> is_white_space (last (js ''Physics''))"
    using T1 m by blast
  have b: "comma \<notin> set (js '' Physics '')" using T4 p by blast
  have "posted (career_step SubmitAttempt ?c) =
          posted ?c @
            [\<lparr>req_interests = normalize_csv (interests (formData ?c)),
              req_academic_level = academic_level (formData ?c),
              req_subjects = normalize_csv (subjects (formData ?c)),
              req_strengths = normalize_csv (strengths (formData ?c)),
              req_career_goals = normalize_csv (career_goals (formData ?c))\<rparr>]"
    using T6 l by (rule mp)
  then have q: "posted (career_run ?es initial_career)
       = [\<lparr>req_interests = [], req_academic_level = js ''12th'',
           req_subjects = [js ''Math'', js ''Physics''], req_strengths = [],
           req_career_goals = []\<rparr>]"
    unfolding r i f by (simp add: initial_formData_def normalize_csv_Nil T5)
  have s: "js ''Math'' \<noteq> [] \<and> (\<exists>c\<in>set (js ''Math''). \<not> is_white_space c)"
    using T7 unfolding q by simp
  show ?thesis
    using m p l q s a b by blast
qed

subsection \<open>The recommendation form\<close>

lemma career_inv_initial: "career_inv initial_career"
  by (simp add: career_inv_def initial_career_def initial_formData_def)

lemma career_inv_step: "career_inv c \<Longrightarrow> career_inv (career_step e c)"
  by (cases e)
     (auto simp: career_inv_def handleSubmit_def handleSubmit_settled_def requestData_def
        normalize_csv_Nil split: sum.splits)

lemma career_inv_run: "career_inv c \<Longrightarrow> career_inv (career_run es c)"
  by (induction es arbitrary: c) (simp_all add: career_inv_step)

lemma career_inv_reachable: "career_inv (career_run es initial_career)"
  by (rule career_inv_run [OF career_inv_initial])

text \<open>
  C10. The form starts with \<open>career_goals\<close> the empty string, no event of the form changes
  it, the empty string normalizes to the empty list, and so every request the form has
  posted, after any sequence of events, has the empty list as its \<open>career_goals\<close>.
\<close>

theorem career_goals_always_empty:
  "career_goals initial_formData = []
   \<and> career_goals (formData (career_run es initial_career)) = []
   \<and> normalize_csv [] = []
   \<and> (\<forall>req\<in>set (posted (career_run es initial_career)). req_career_goals req = [])"
  using career_inv_reachable [of es]
  by (simp add: career_inv_def initial_formData_def normalize_csv_Nil)

theorem career_goals_always_empty_witness:
  "posted (career_run [ChangeInterests (js ''Art, Science''), ChangeStrengths (js ''goals''), SubmitAttempt] initial_career)
     = [\<lparr>req_interests = [js ''Art'', js ''Science''], req_academic_level = js ''12th'',
         req_subjects = [], req_strengths = [js ''goals''], req_career_goals = []\<rparr>]"
proof -
  let ?es = "[ChangeInterests (js ''Art, Science''), ChangeStrengths (js ''goals''), SubmitAttempt]"
  have p: "posted (career_run ?es initial_career)
     = [\<lparr>req_interests = [js ''Art'', js ''Science''], req_academic_level = js ''12th'',
         req_subjects = [], req_strengths = [js ''goals''],
         req_career_goals = normalize_csv []\<rparr>]"
    by (simp add: initial_career_def initial_formData_def handleSubmit_def requestData_def
        normalize_csv_def js_def comma_def str_trim_def is_white_space_def)
  show ?thesis using p career_goals_always_empty [of ?es] by simp
qed

text \<open>
  C3. In every state the form can reach, at most one request is pending, and one is
  pending exactly while \<open>loading\<close> is set. A submit attempt in such a state changes nothing:
  no request is posted, none is queued, and one request stays pending.
\<close>

theorem single_flight:
  "pending (career_run es initial_career) \<le> 1
   \<and> (rec_loading (career_run es initial_career) \<longleftrightarrow> pending (career_run es initial_career) = 1)
   \<and> (rec_loading (career_run es initial_career) \<longrightarrow>
        career_step SubmitAttempt (career_run es initial_career) = career_run es initial_career
        \<and> posted (career_step SubmitAttempt (career_run es initial_career))
            = posted (career_run es initial_career)
        \<and> pending (career_step SubmitAttempt (career_run es initial_career)) = 1)"
  using career_inv_reachable [of es] by (simp add: career_inv_def)

theorem single_flight_witness:
  "rec_loading (career_run [SubmitAttempt] initial_career)
   \<and> length (posted (career_run [SubmitAttempt] initial_career)) = 1
   \<and> length (posted (career_step SubmitAttempt (career_run [SubmitAttempt] initial_career))) = 1
   \<and> pending (career_step SubmitAttempt (career_run [SubmitAttempt] initial_career)) = 1"
proof -
  have l: "rec_loading (career_run [SubmitAttempt] initial_career)"
    by (simp add: initial_career_def handleSubmit_def)
  have n: "length (posted (career_run [SubmitAttempt] initial_career)) = 1"
    by (simp add: initial_career_def handleSubmit_def)
  show ?thesis using l n single_flight [of "[SubmitAttempt]"] by simp
qed

lemma career_with_results_eq:
  "career_with_results =
     initial_career\<lparr>recommendations := example_results,
       formData := initial_formData\<lparr>interests := js ''Technology''\<rparr>,
       posted := [requestData (initial_formData\<lparr>interests := js ''Technology''\<rparr>)]\<rparr>"
  by (simp add: career_with_results_def initial_career_def handleSubmit_def handleSubmit_settled_def)

text \<open>
  The form that shows three results, after a submission that fails: the three results are
  still there, but so is everything else, exactly as before the submission. Every state
  cell of the component is back at its old value, and the markup is a function of these
  cells, so nothing on the screen tells of the error. The error went to the console only.
\<close>

theorem failed_submission_counterexample:
  "length (recommendations career_with_results) = 3
   \<and> career_render (career_run [SubmitAttempt, Settled (Inl (AxiosError None))] career_with_results)
       = career_render career_with_results
   \<and> rec_loading (career_run [SubmitAttempt, Settled (Inl (AxiosError None))] career_with_results)
       = rec_loading career_with_results
   \<and> recommendations (career_run [SubmitAttempt, Settled (Inl (AxiosError None))] career_with_results)
       = recommendations career_with_results
   \<and> formData (career_run [SubmitAttempt, Settled (Inl (AxiosError None))] career_with_results)
       = formData career_with_results"
  by (simp add: career_with_results_eq initial_career_def handleSubmit_def handleSubmit_settled_def
      career_render_def example_results_def)

text \<open>
  C2, amended. A submission whose remote call fails leaves the result list unchanged and
  shown, and writes the error to the console: what is rendered afterwards is what was
  rendered before, with the button enabled again. A submission whose remote call succeeds
  replaces the result list by the new results, with no merge and no append.
\<close>

theorem submission_outcome:
  "recommendations (handleSubmit_settled (Inl err) (handleSubmit c)) = recommendations c
   \<and> career_render (handleSubmit_settled (Inl err) (handleSubmit c))
       = career_render (c\<lparr>rec_loading := False\<rparr>)
   \<and> console (handleSubmit_settled (Inl err) (handleSubmit c)) = console c @ [err]
   \<and> recommendations (handleSubmit_settled (Inr recs) (handleSubmit c)) = recs
   \<and> cards (career_render (handleSubmit_settled (Inr recs) (handleSubmit c))) = recs
   \<and> console (handleSubmit_settled (Inr recs) (handleSubmit c)) = console c"
  by (simp add: handleSubmit_def handleSubmit_settled_def career_render_def)

subsection \<open>The dashboard loader\<close>

text \<open>
  The scholarships request fails and the other two succeed: neither the statistics nor
  the opportunities that arrived are applied.
\<close>

theorem partial_failure_counterexample:
  "stats (fetchDashboardData (Inr [(js ''quizzes_completed'', 4)]) (Inl (AxiosError None))
            (Inr [js ''Govt College'']) (initial_dashboard :: (jsstring, jsstring) dashboard)) = []
   \<and> opportunities (fetchDashboardData (Inr [(js ''quizzes_completed'', 4)]) (Inl (AxiosError None))
            (Inr [js ''Govt College'']) (initial_dashboard :: (jsstring, jsstring) dashboard)) = []
   \<and> stats (fetchDashboardData (Inr [(js ''quizzes_completed'', 4)]) (Inl (AxiosError None))
            (Inr [js ''Govt College'']) (initial_dashboard :: (jsstring, jsstring) dashboard))
        \<noteq> [(js ''quizzes_completed'', 4)]
   \<and> opportunities (fetchDashboardData (Inr [(js ''quizzes_completed'', 4)]) (Inl (AxiosError None))
            (Inr [js ''Govt College'']) (initial_dashboard :: (jsstring, jsstring) dashboard))
        \<noteq> [js ''Govt College'']"
  by (simp add: fetchDashboardData_def promise_all3_def initial_dashboard_def)

text \<open>
  C1, amended. The loader is all or nothing. When the three requests succeed, the three
  results are applied together. When at least one of them fails, the loader logs one error
  and applies none of the results, those of the successful requests included; what the
  dashboard held before stays as it was, so nothing is cleared.
\<close>

theorem all_or_nothing:
  "fetchDashboardData (Inr st) (Inr sc) (Inr op) d
     = d\<lparr>stats := st, scholarships := sc, opportunities := op\<rparr>
   \<and> ((\<exists>e. statsRes = Inl e) \<or> (\<exists>e. scholarshipsRes = Inl e) \<or> (\<exists>e. opportunitiesRes = Inl e)
        \<longrightarrow> fetchDashboardData statsRes scholarshipsRes opportunitiesRes d
              = d\<lparr>dash_logged := Suc (dash_logged d)\<rparr>
          \<and> stats (fetchDashboardData statsRes scholarshipsRes opportunitiesRes d) = stats d
          \<and> scholarships (fetchDashboardData statsRes scholarshipsRes opportunitiesRes d)
              = scholarships d
          \<and> opportunities (fetchDashboardData statsRes scholarshipsRes opportunitiesRes d)
              = opportunities d)"
  by (auto simp: fetchDashboardData_def promise_all3_def split: sum.splits)

theorem all_or_nothing_witness:
  "fetchDashboardData (Inr [(js ''quizzes_completed'', 4)]) (Inl (AxiosError None))
      (Inr [js ''Govt College'']) (initial_dashboard :: (jsstring, jsstring) dashboard)
    = initial_dashboard\<lparr>dash_logged := 1\<rparr>"
  using all_or_nothing [where statsRes = "Inr [(js ''quizzes_completed'', 4)]"
      and scholarshipsRes = "Inl (AxiosError None) :: axios_error + jsstring list"
      and opportunitiesRes = "Inr [js ''Govt College'']"
      and d = "initial_dashboard :: (jsstring, jsstring) dashboard"]
  by (simp add: initial_dashboard_def)

subsection \<open>Validation before the network\<close>








lemma language_value_in_codes: "language_value l \<in> set language_codes"
  by (cases l) (simp_all add: language_codes_def)





lemma valid_registration_is_posted:
  "registerSchema z d = [] \<Longrightarrow>
     auth_posted (form_handleSubmit z False d f) = auth_posted f @ [(js ''/auth/register'', d)]"
  by (simp add: form_handleSubmit_def onSubmit_def)

lemma valid_login_is_posted:
  "loginSchema z d = [] \<Longrightarrow>
     auth_posted (form_handleSubmit z True d f) = auth_posted f @ [(js ''/auth/login'', d)]"
  by (simp add: form_handleSubmit_def onSubmit_def)

lemma html_email_accepts: "html_email (js ''asha@example.org'')"
  by (simp add: html_email_def js_def is_atext_def is_alnum_def is_label_def)

subsection \<open>Session and language\<close>

lemma session_inv_initial: "session_inv (initial_app stored)"
  by (simp add: session_inv_def initial_app_def)

lemma session_inv_step: "session_inv a \<Longrightarrow> session_inv (app_step e a)"
proof (cases e)
  case Mount
  assume "session_inv a"
  with Mount show ?thesis
    by (simp add: session_inv_def startup_effect_def split: option.splits if_splits)
next
  case (MeSettled r)
  assume "session_inv a"
  with MeSettled show ?thesis
    by (cases r) (simp_all add: session_inv_def me_settled_def split: option.splits if_splits)
next
  case (SetLanguage l)
  assume "session_inv a"
  with SetLanguage show ?thesis by (simp add: session_inv_def split: option.splits if_splits)
next
  case (SetAuthMode m)
  assume "session_inv a"
  with SetAuthMode show ?thesis by (simp add: session_inv_def split: option.splits if_splits)
next
  case AuthSubmit
  assume "session_inv a"
  with AuthSubmit show ?thesis by (simp add: session_inv_def split: option.splits if_splits)
next
  case (AuthSettled r)
  assume "session_inv a"
  with AuthSettled show ?thesis
    by (cases r)
       (simp_all add: session_inv_def onSubmit_success_def handleAuthSuccess_def
          split: option.splits if_splits)
next
  case Logout
  assume "session_inv a"
  with Logout show ?thesis
    by (simp add: session_inv_def handleLogout_def split: option.splits if_splits)
qed

lemma session_inv_run: "session_inv a \<Longrightarrow> session_inv (app_run es a)"
  by (induction es arbitrary: a) (simp_all add: session_inv_step)

text \<open>
  A start with a stored token: once the startup effect has run, the header is attached
  and no identity is present yet, and this credential is a valid one, since the
  verification that follows succeeds.
\<close>

theorem verification_window_counterexample:
  "axios_Authorization (app_run [Mount] (initial_app (Some (js ''tok'')))) = Some (Bearer (js ''tok''))
   \<and> localStorage_token (app_run [Mount] (initial_app (Some (js ''tok'')))) = Some (js ''tok'')
   \<and> user (app_run [Mount] (initial_app (Some (js ''tok'')))) = None
   \<and> user (app_run [Mount, MeSettled (Inr example_user)] (initial_app (Some (js ''tok''))))
       = Some example_user
   \<and> axios_Authorization (app_run [Mount, MeSettled (Inr example_user)] (initial_app (Some (js ''tok''))))
       = Some (Bearer (js ''tok''))"
  by (simp add: initial_app_def startup_effect_def me_settled_def js_def)

text \<open>
  C5, amended. Login success, registration success, verification failure and logout each
  write the stored token and the authorization header in one step: both set (with the
  identity) or both removed. In every reachable state, an attached header is the Bearer
  header of the stored token; a present identity comes with a stored token and an
  attached header; and a header attached without an identity occurs only while the startup
  verification is unanswered and the application shows its loading state.
\<close>

theorem session_consistency:
  "localStorage_token (onSubmit_success response a) = Some (access_token response)
   \<and> axios_Authorization (onSubmit_success response a) = Some (Bearer (access_token response))
   \<and> user (onSubmit_success response a) = Some (resp_user response)
   \<and> localStorage_token (me_settled (Inl err) a) = None
   \<and> axios_Authorization (me_settled (Inl err) a) = None
   \<and> localStorage_token (handleLogout a) = None
   \<and> axios_Authorization (handleLogout a) = None
   \<and> user (handleLogout a) = None
   \<and> (axios_Authorization (app_run es (initial_app stored)) \<noteq> None \<longrightarrow>
         axios_Authorization (app_run es (initial_app stored))
           = map_option Bearer (localStorage_token (app_run es (initial_app stored))))
   \<and> (user (app_run es (initial_app stored)) \<noteq> None \<longrightarrow>
         localStorage_token (app_run es (initial_app stored)) \<noteq> None
         \<and> axios_Authorization (app_run es (initial_app stored)) \<noteq> None)
   \<and> (axios_Authorization (app_run es (initial_app stored)) \<noteq> None
        \<and> user (app_run es (initial_app stored)) = None \<longrightarrow>
         me_pending (app_run es (initial_app stored)) \<and> loading (app_run es (initial_app stored)))"
proof -
  have "session_inv (app_run es (initial_app stored))"
    by (rule session_inv_run [OF session_inv_initial])
  then show ?thesis
    by (simp add: session_inv_def onSubmit_success_def handleAuthSuccess_def me_settled_def
        handleLogout_def split: option.splits if_splits)
qed

theorem session_consistency_witness:
  "user (app_run [Mount, MeSettled (Inr example_user)] (initial_app (Some (js ''tok'')))) \<noteq> None
   \<and> localStorage_token (app_run [Mount, MeSettled (Inr example_user)]
        (initial_app (Some (js ''tok'')))) = Some (js ''tok'')
   \<and> axios_Authorization (app_run [Mount, MeSettled (Inr example_user)]
        (initial_app (Some (js ''tok'')))) = Some (Bearer (js ''tok''))
   \<and> axios_Authorization (app_run [Mount] (initial_app (Some (js ''tok'')))) \<noteq> None
   \<and> user (app_run [Mount] (initial_app (Some (js ''tok'')))) = None
   \<and> me_pending (app_run [Mount] (initial_app (Some (js ''tok''))))
   \<and> loading (app_run [Mount] (initial_app (Some (js ''tok''))))"
proof -
  let ?a = "app_run [Mount, MeSettled (Inr example_user)] (initial_app (Some (js ''tok'')))"
  let ?b = "app_run [Mount] (initial_app (Some (js ''tok'')))"
  have u: "user ?a \<noteq> None" and t: "localStorage_token ?a = Some (js ''tok'')"
    by (simp_all add: initial_app_def startup_effect_def me_settled_def js_def)
  have h: "axios_Authorization ?b \<noteq> None" and n: "user ?b = None"
    by (simp_all add: initial_app_def startup_effect_def js_def)
  show ?thesis
    using u t h n
      session_consistency [of _ _ _ "[Mount, MeSettled (Inr example_user)]" "Some (js ''tok'')"]
      session_consistency [of _ _ _ "[Mount]" "Some (js ''tok'')"]
    by simp
qed

text \<open>
  C6. Logout removes the identity, the stored token and the authorization header, and
  leaves the selected language as it was. With a user present, the logout button does
  exactly this.
\<close>

theorem logout_keeps_language:
  "user (handleLogout a) = None
   \<and> localStorage_token (handleLogout a) = None
   \<and> axios_Authorization (handleLogout a) = None
   \<and> currentLanguage (handleLogout a) = currentLanguage a
   \<and> (user a \<noteq> None \<and> \<not> loading a \<longrightarrow> app_step Logout a = handleLogout a)"
  by (simp add: handleLogout_def)

theorem logout_keeps_language_witness:
  "user (app_run [Mount, MeSettled (Inr example_user), SetLanguage (js ''ks'')]
           (initial_app (Some (js ''tok'')))) = Some example_user
   \<and> currentLanguage (app_run [Mount, MeSettled (Inr example_user), SetLanguage (js ''ks''), Logout]
           (initial_app (Some (js ''tok'')))) = js ''ks''
   \<and> user (app_run [Mount, MeSettled (Inr example_user), SetLanguage (js ''ks''), Logout]
           (initial_app (Some (js ''tok'')))) = None
   \<and> axios_Authorization (app_run [Mount, MeSettled (Inr example_user), SetLanguage (js ''ks''), Logout]
           (initial_app (Some (js ''tok'')))) = None"
proof -
  let ?a = "app_run [Mount, MeSettled (Inr example_user), SetLanguage (js ''ks'')]
              (initial_app (Some (js ''tok'')))"
  have u: "user ?a = Some example_user" and l: "\<not> loading ?a"
    and c: "currentLanguage ?a = js ''ks''"
    by (simp_all add: initial_app_def startup_effect_def me_settled_def js_def)
  have r: "app_run [Mount, MeSettled (Inr example_user), SetLanguage (js ''ks''), Logout]
             (initial_app (Some (js ''tok''))) = app_step Logout ?a"
    by simp
  show ?thesis
    unfolding r using u l c logout_keeps_language [of ?a] by simp
qed

text \<open>
  C8. When the verification of a stored token fails, the stored token is removed and the
  header detached, no identity is set and the loading state ends: the application is in
  the very state of a start without any token.
\<close>

theorem verify_failure_clears_session:
  "localStorage_token (me_settled (Inl err) a) = None
   \<and> axios_Authorization (me_settled (Inl err) a) = None
   \<and> user (me_settled (Inl err) a) = user a
   \<and> \<not> loading (me_settled (Inl err) a)
   \<and> (token \<noteq> [] \<longrightarrow>
        app_run [Mount, MeSettled (Inl err)] (initial_app (Some token))
          = app_run [Mount] (initial_app None)
        \<and> user (app_run [Mount, MeSettled (Inl err)] (initial_app (Some token))) = None)"
  by (simp add: me_settled_def initial_app_def startup_effect_def)

theorem verify_failure_clears_session_witness:
  "js ''stale'' \<noteq> []
   \<and> app_run [Mount, MeSettled (Inl (AxiosError (Some (js ''Unauthorized''))))]
        (initial_app (Some (js ''stale'')))
      = \<lparr>user = None, loading = False, authMode = None, currentLanguage = js ''en'',
         localStorage_token = None, axios_Authorization = None,
         mounted = True, me_pending = False, auth_pending = 0\<rparr>"
proof -
  have n: "js ''stale'' \<noteq> []" by (simp add: js_def)
  have m: "app_run [Mount] (initial_app None)
      = \<lparr>user = None, loading = False, authMode = None, currentLanguage = js ''en'',
         localStorage_token = None, axios_Authorization = None,
         mounted = True, me_pending = False, auth_pending = 0\<rparr>"
    by (simp add: initial_app_def startup_effect_def)
  show ?thesis
    using n m verify_failure_clears_session
      [of "AxiosError (Some (js ''Unauthorized''))" _ "js ''stale''"]
    by simp
qed

text \<open>
  C9. A successful verification, login or registration sets the identity and sets the
  language to the identity's preferred language; without one (absent, or the empty
  string, which JavaScript's \<open>||\<close> treats alike) the language is \<open>en\<close>.
\<close>

theorem language_follows_identity:
  "user (me_settled (Inr u) a) = Some u
   \<and> user (onSubmit_success \<lparr>access_token = t, resp_user = u\<rparr> a) = Some u
   \<and> (preferred_language u = Some l \<and> l \<noteq> [] \<longrightarrow>
        currentLanguage (me_settled (Inr u) a) = l
        \<and> currentLanguage (onSubmit_success \<lparr>access_token = t, resp_user = u\<rparr> a) = l)
   \<and> (preferred_language u = None \<or> preferred_language u = Some [] \<longrightarrow>
        currentLanguage (me_settled (Inr u) a) = js ''en''
        \<and> currentLanguage (onSubmit_success \<lparr>access_token = t, resp_user = u\<rparr> a) = js ''en'')"
  by (auto simp: me_settled_def onSubmit_success_def handleAuthSuccess_def or_default_def)

theorem language_follows_identity_witness:
  "preferred_language example_user = Some (js ''hi'') \<and> js ''hi'' \<noteq> []
   \<and> currentLanguage (me_settled (Inr example_user) (initial_app (Some (js ''tok'')))) = js ''hi''
   \<and> preferred_language (example_user\<lparr>preferred_language := None\<rparr>) = None
   \<and> currentLanguage (onSubmit_success
        \<lparr>access_token = js ''tok'', resp_user = example_user\<lparr>preferred_language := None\<rparr>\<rparr>
        (initial_app None)) = js ''en''"
proof -
  have p: "preferred_language example_user = Some (js ''hi'')" and n: "js ''hi'' \<noteq> []"
    by (simp_all add: example_user_def js_def)
  have q: "preferred_language (example_user\<lparr>preferred_language := None\<rparr>) = None" by simp
  show ?thesis
    using p n q
      language_follows_identity [of example_user "initial_app (Some (js ''tok''))" "js ''tok''" "js ''hi''"]
      language_follows_identity [of "example_user\<lparr>preferred_language := None\<rparr>" "initial_app None" "js ''tok''" "[]"]
    by simp
qed

end
